theory Spec2Isabelle
  imports Main
begin

section \<open>gdb::function_view (gdb/common/function-view.h)\<close>

text \<open>
  A \<open>function_view<Res (Args...)>\<close> is a pair of pointers: the erased callable and
  the invoker. The embedding keeps the two members under their names.

  Conventions of the embedding:
  \<^item> an address (of an object or of a function) is a \<open>nat\<close>, and \<open>0\<close> is the null
    pointer;
  \<^item> \<open>'a\<close> is the argument pack \<open>Args...\<close> (a tuple, \<open>unit\<close> for no argument),
    \<open>'r\<close> is \<open>Res\<close>, and \<open>'w\<close> is the memory that the callables read and write;
  \<^item> a call returns \<open>Some (result, memory afterwards)\<close>, or \<open>None\<close> where the C++
    program has undefined behaviour.
\<close>

subsection \<open>traits\<close>

text \<open>
  A predicate type is represented by what reading its \<open>::value\<close> gives: \<open>Some b\<close>, or
  \<open>None\<close> when the type cannot be instantiated. \<open>std::conditional<c, T, F>::type\<close>
  names both \<open>T\<close> and \<open>F\<close> but only the chosen one becomes the base class, so only the
  chosen one is instantiated.
\<close>

type_synonym predicate = "bool option"

definition traits_Not :: "predicate \<Rightarrow> predicate" where
  "traits_Not p = (case p of None \<Rightarrow> None | Some v \<Rightarrow> Some (\<not> v))"

fun traits_Or :: "predicate list \<Rightarrow> predicate" where
  "traits_Or [] = Some False"
| "traits_Or [b1] = b1"
| "traits_Or [b1, b2] =
     (case b1 of None \<Rightarrow> None | Some v \<Rightarrow> if v then b1 else b2)"
| "traits_Or (b1 # b2 # b3 # bn) =
     (case b1 of None \<Rightarrow> None | Some v \<Rightarrow> if v then b1 else traits_Or (b2 # b3 # bn))"

subsection \<open>fv_detail::erased_callable\<close>

text \<open>
  The union has one active member: \<open>data\<close> (a \<open>void *\<close>) or \<open>fn\<close> (a
  \<open>void (*) ()\<close>). Writing a member makes it the active one.
\<close>

datatype erased_callable = data nat | fn nat

subsection \<open>The class\<close>

type_synonym ('a, 'r, 'w) invoker = "erased_callable \<Rightarrow> 'a \<Rightarrow> 'w \<Rightarrow> ('r \<times> 'w) option"

record ('a, 'r, 'w) function_view =
  m_erased_callable :: erased_callable
  m_invoker :: "('a, 'r, 'w) invoker option"

text \<open>
  What calling the callable found at an address does: for a function object, the call
  expression \<open>callable (args...)\<close> on the object at that address; for a function
  pointer, the call of the function at that code address. It is given by the program
  that uses the view.
\<close>

type_synonym ('a, 'r, 'w) callable = "nat \<Rightarrow> 'a \<Rightarrow> 'w \<Rightarrow> ('r \<times> 'w) option"

text \<open>\<open>function_view ()\<close> and \<open>function_view (std::nullptr_t)\<close>: both members
  value-initialised; for the union that is its first member, \<open>data\<close>, set to null.\<close>

definition function_view_default :: "('a, 'r, 'w) function_view" where
  "function_view_default = \<lparr> m_erased_callable = data 0, m_invoker = None \<rparr>"

definition function_view_nullptr :: "('a, 'r, 'w) function_view" where
  "function_view_nullptr = \<lparr> m_erased_callable = data 0, m_invoker = None \<rparr>"

text \<open>The defaulted copy constructor and copy assignment: member by member.\<close>

definition function_view_copy :: "('a, 'r, 'w) function_view \<Rightarrow> ('a, 'r, 'w) function_view" where
  "function_view_copy other =
     \<lparr> m_erased_callable = m_erased_callable other, m_invoker = m_invoker other \<rparr>"

definition operator_assign ::
  "('a, 'r, 'w) function_view \<Rightarrow> ('a, 'r, 'w) function_view \<Rightarrow> ('a, 'r, 'w) function_view" where
  "operator_assign this other =
     this\<lparr> m_erased_callable := m_erased_callable other, m_invoker := m_invoker other \<rparr>"

text \<open>\<open>operator= (std::nullptr_t)\<close>: \<open>m_invoker = nullptr; return *this;\<close>\<close>

definition operator_assign_nullptr :: "('a, 'r, 'w) function_view \<Rightarrow> ('a, 'r, 'w) function_view" where
  "operator_assign_nullptr this = this\<lparr> m_invoker := None \<rparr>"

text \<open>\<open>explicit operator bool\<close>: \<open>m_invoker != nullptr\<close>.\<close>

definition operator_bool :: "('a, 'r, 'w) function_view \<Rightarrow> bool" where
  "operator_bool this = (case m_invoker this of None \<Rightarrow> False | Some i \<Rightarrow> True)"

text \<open>
  \<open>operator ()\<close>: \<open>m_invoker (m_erased_callable, args...)\<close>. There is no null check:
  calling through a null \<open>m_invoker\<close> is undefined.
\<close>

definition operator_call :: "('a, 'r, 'w) function_view \<Rightarrow> 'a \<Rightarrow> 'w \<Rightarrow> ('r \<times> 'w) option" where
  "operator_call this args w =
     (case m_invoker this of
        None \<Rightarrow> None
      | Some invoker \<Rightarrow> invoker (m_erased_callable this) args w)"

text \<open>
  The two lambdas that \<open>bind\<close> stores in \<open>m_invoker\<close>. Each is generated for one
  callable type, whose call is \<open>call\<close>; \<open>cast\<close> is the explicit \<open>(Res)\<close> applied to the
  callable's own result. Reading the member of the union that is not the active one is
  undefined.
\<close>

definition invoker_callable ::
  "('a, 'r2, 'w) callable \<Rightarrow> ('r2 \<Rightarrow> 'r) \<Rightarrow> ('a, 'r, 'w) invoker" where
  "invoker_callable call cast ecall args w =
     (case ecall of
        data restored_callable \<Rightarrow>
          (case call restored_callable args w of
             None \<Rightarrow> None
           | Some (res, w') \<Rightarrow> Some (cast res, w'))
      | fn f \<Rightarrow> None)"

definition invoker_fn ::
  "('a, 'r2, 'w) callable \<Rightarrow> ('r2 \<Rightarrow> 'r) \<Rightarrow> ('a, 'r, 'w) invoker" where
  "invoker_fn call cast ecall args w =
     (case ecall of
        fn restored_fn \<Rightarrow>
          (case call restored_fn args w of
             None \<Rightarrow> None
           | Some (res, w') \<Rightarrow> Some (cast res, w'))
      | data d \<Rightarrow> None)"

text \<open>\<open>bind (Callable &callable)\<close>; \<open>callable\<close> is \<open>std::addressof (callable)\<close>.\<close>

definition bind_callable ::
  "('a, 'r2, 'w) callable \<Rightarrow> ('r2 \<Rightarrow> 'r) \<Rightarrow> nat \<Rightarrow> ('a, 'r, 'w) function_view
     \<Rightarrow> ('a, 'r, 'w) function_view" where
  "bind_callable call cast callable this =
     this\<lparr> m_erased_callable := data callable,
           m_invoker := Some (invoker_callable call cast) \<rparr>"

text \<open>\<open>bind (Res2 (*fn) (Args2...))\<close>.\<close>

definition bind_fn ::
  "('a, 'r2, 'w) callable \<Rightarrow> ('r2 \<Rightarrow> 'r) \<Rightarrow> nat \<Rightarrow> ('a, 'r, 'w) function_view
     \<Rightarrow> ('a, 'r, 'w) function_view" where
  "bind_fn call cast f this =
     this\<lparr> m_erased_callable := fn f,
           m_invoker := Some (invoker_fn call cast) \<rparr>"

text \<open>
  \<open>function_view (Callable &&callable)\<close>: the body is \<open>bind (callable)\<close>, and the
  constructor has no member initialisers, so \<open>bind\<close> runs on members that hold
  whatever was in the storage: \<open>uninit\<close>. Overload resolution sends a function to the
  function-pointer \<open>bind\<close> and everything else to the other one.
\<close>

definition function_view_callable ::
  "('a, 'r, 'w) function_view \<Rightarrow> ('a, 'r2, 'w) callable \<Rightarrow> ('r2 \<Rightarrow> 'r) \<Rightarrow> nat
     \<Rightarrow> ('a, 'r, 'w) function_view" where
  "function_view_callable uninit call cast callable = bind_callable call cast callable uninit"

definition function_view_fn ::
  "('a, 'r, 'w) function_view \<Rightarrow> ('a, 'r2, 'w) callable \<Rightarrow> ('r2 \<Rightarrow> 'r) \<Rightarrow> nat
     \<Rightarrow> ('a, 'r, 'w) function_view" where
  "function_view_fn uninit call cast f = bind_fn call cast f uninit"

subsection \<open>Comparison with NULL\<close>

definition eq_view_nullptr :: "('a, 'r, 'w) function_view \<Rightarrow> bool" where
  "eq_view_nullptr f = (\<not> operator_bool f)"

definition eq_nullptr_view :: "('a, 'r, 'w) function_view \<Rightarrow> bool" where
  "eq_nullptr_view f = (\<not> operator_bool f)"

definition ne_view_nullptr :: "('a, 'r, 'w) function_view \<Rightarrow> bool" where
  "ne_view_nullptr f = operator_bool f"

definition ne_nullptr_view :: "('a, 'r, 'w) function_view \<Rightarrow> bool" where
  "ne_nullptr_view f = operator_bool f"

subsection \<open>The acceptance test of the converting constructor\<close>

text \<open>
  The traits of the standard library that the class uses are not part of this file;
  they are taken as given. \<open>'t\<close> is the C++ types, \<open>'c\<close> the callable types, and
  \<open>result_of\<close> is \<open>std::result_of<Callable &(Args...)>::type\<close>, which does not exist
  (\<open>None\<close>) when the callable cannot be called with \<open>Args...\<close>.
\<close>

record ('t, 'c) std_traits =
  is_void :: "'t \<Rightarrow> predicate"
  is_same :: "'t \<Rightarrow> 't \<Rightarrow> predicate"
  is_convertible :: "'t \<Rightarrow> 't \<Rightarrow> predicate"
  result_of :: "'c \<Rightarrow> 't option"

definition CompatibleReturnType :: "('t, 'c) std_traits \<Rightarrow> 't \<Rightarrow> 't \<Rightarrow> predicate" where
  "CompatibleReturnType std From To =
     traits_Or [is_void std To, is_same std From To, is_convertible std From To]"

definition IsCompatibleCallable :: "('t, 'c) std_traits \<Rightarrow> 't \<Rightarrow> 'c \<Rightarrow> predicate" where
  "IsCompatibleCallable std Res Callable =
     (case result_of std Callable of
        None \<Rightarrow> None
      | Some Res2 \<Rightarrow> CompatibleReturnType std Res2 Res)"

text \<open>A handful of types and of callable types with the standard's answers for them,
  to evaluate the test on.\<close>

datatype ctype = Void_t | Bool_t | Int_t | Pointer_t

datatype ccallable = Returns ctype | Not_callable

definition example_traits :: "(ctype, ccallable) std_traits" where
  "example_traits =
     \<lparr> is_void = (\<lambda>t. Some (t = Void_t)),
       is_same = (\<lambda>a b. Some (a = b)),
       is_convertible =
         (\<lambda>a b. Some (a = b \<or> (a \<noteq> Void_t \<and> b = Bool_t) \<or> (a = Bool_t \<and> b = Int_t))),
       result_of = (\<lambda>c. case c of Returns t \<Rightarrow> Some t | Not_callable \<Rightarrow> None) \<rparr>"

subsection \<open>Callers\<close>

text \<open>
  Calling the callable directly and converting what it returns to \<open>Res\<close>: the
  expression \<open>(Res) callable (args...)\<close> on the callable at address \<open>c\<close>.
\<close>

definition direct_call :: "('a, 'r2, 'w) callable \<Rightarrow> ('r2 \<Rightarrow> 'r) \<Rightarrow> nat \<Rightarrow> 'a \<Rightarrow> 'w \<Rightarrow> ('r \<times> 'w) option" where
  "direct_call call cast c args w =
     (case call c args w of None \<Rightarrow> None | Some (res, w') \<Rightarrow> Some (cast res, w'))"

text \<open>One call after another, on the memory the first one leaves.\<close>

definition then_call ::
  "('w \<Rightarrow> ('r1 \<times> 'w) option) \<Rightarrow> ('w \<Rightarrow> ('r2 \<times> 'w) option) \<Rightarrow> 'w \<Rightarrow> (('r1 \<times> 'r2) \<times> 'w) option" where
  "then_call first second w =
     (case first w of
        None \<Rightarrow> None
      | Some (r1, w1) \<Rightarrow>
          (case second w1 of None \<Rightarrow> None | Some (r2, w2) \<Rightarrow> Some ((r1, r2), w2)))"


subsection \<open>A memory of cells\<close>

text \<open>
  A cell holds an \<open>int\<close>, a pointer, or a \<open>function_view\<close> object: its
  \<open>m_erased_callable\<close> and its \<open>m_invoker\<close>. The invoker of a view in the memory
  is the code address of the lambda, 0 for the null pointer.

  The C++ \<open>int\<close> has 32 bits: a cell holds a value from \<open>INT_MIN\<close> to
  \<open>INT_MAX\<close>, and \<open>++\<close> on \<open>INT_MAX\<close> is undefined.
\<close>

datatype cell = Int_cell int | Ptr_cell nat | View_cell erased_callable nat

type_synonym cells = "nat \<Rightarrow> cell option"

definition INT_MAX :: int where
  "INT_MAX = 2147483647"

definition INT_MIN :: int where
  "INT_MIN = - 2147483648"

subsection \<open>A view that lives in the memory\<close>

text \<open>
  The code of the program: what the lambda at a code address does when it is called
  as an invoker. Reading the view object at address \<open>v\<close> gives its two members.
\<close>

type_synonym ('a, 'r) code = "nat \<Rightarrow> ('a, 'r, cells) invoker"

definition load_view :: "('a, 'r) code \<Rightarrow> cells \<Rightarrow> nat \<Rightarrow> ('a, 'r, cells) function_view option" where
  "load_view code w v =
     (case w v of
        Some (View_cell ecall i) \<Rightarrow>
          Some \<lparr> m_erased_callable = ecall,
                 m_invoker = (if i = 0 then None else Some (code i)) \<rparr>
      | Some (Int_cell n) \<Rightarrow> None
      | Some (Ptr_cell p) \<Rightarrow> None
      | None \<Rightarrow> None)"



subsection \<open>Callables with state\<close>

text \<open>The closure \<open>[t] (int x) { return x > t; }\<close>: the object holds \<open>t\<close>.\<close>

definition greater_than_closure :: "(int, bool, cells) callable" where
  "greater_than_closure this x w =
     (case w this of
        Some (Int_cell t) \<Rightarrow> Some (x > t, w)
      | Some (Ptr_cell p) \<Rightarrow> None
      | Some (View_cell ecall i) \<Rightarrow> None
      | None \<Rightarrow> None)"

text \<open>The function object \<open>struct { int *counter; void operator() () { ++*counter; } }\<close>:
  the object holds the address of a counter that lives outside it.\<close>

definition increment_counter :: "(unit, unit, cells) callable" where
  "increment_counter this args w =
     (case w this of
        Some (Ptr_cell counter) \<Rightarrow>
          (case w counter of
             Some (Int_cell n) \<Rightarrow>
               if INT_MIN \<le> n \<and> n < INT_MAX
               then Some ((), w(counter \<mapsto> Int_cell (n + 1)))
               else None
           | Some (Ptr_cell p) \<Rightarrow> None
           | Some (View_cell ecall i) \<Rightarrow> None
           | None \<Rightarrow> None)
      | Some (Int_cell n) \<Rightarrow> None
      | Some (View_cell ecall i) \<Rightarrow> None
      | None \<Rightarrow> None)"

text \<open>The closure \<open>[n] () mutable { return ++n; }\<close>: the object holds \<open>n\<close> and
  changes it at each call.\<close>

definition count_closure :: "(unit, int, cells) callable" where
  "count_closure this args w =
     (case w this of
        Some (Int_cell n) \<Rightarrow>
          if INT_MIN \<le> n \<and> n < INT_MAX
          then Some (n + 1, w(this \<mapsto> Int_cell (n + 1)))
          else None
      | Some (Ptr_cell p) \<Rightarrow> None
      | Some (View_cell ecall i) \<Rightarrow> None
      | None \<Rightarrow> None)"


section \<open>Properties\<close>

subsection \<open>Calling through a view\<close>

lemma operator_call_function_view_callable:
  "operator_call (function_view_callable uninit call cast c) = direct_call call cast c"
  by (intro ext)
    (simp add: operator_call_def function_view_callable_def bind_callable_def
      invoker_callable_def direct_call_def)

lemma operator_call_function_view_fn:
  "operator_call (function_view_fn uninit call cast f) = direct_call call cast f"
  by (intro ext)
    (simp add: operator_call_def function_view_fn_def bind_fn_def invoker_fn_def direct_call_def)

lemma direct_call_id: "direct_call call id c args w = call c args w"
  by (simp add: direct_call_def split: option.split)

lemma function_view_copy_same: "function_view_copy v = v"
  by (simp add: function_view_copy_def)

text \<open>
  C1: a view constructed from a free function \<open>f\<close> of the view's own signature (so
  that the conversion to \<open>Res\<close> is the identity), called with \<open>args\<close>, gives the
  result and the memory that calling \<open>f\<close> with \<open>args\<close> gives, and is undefined
  exactly where that call is.
\<close>

theorem view_of_function_calls_function:
  "operator_call (function_view_fn uninit call id f) args w = call f args w"
  by (simp add: operator_call_function_view_fn direct_call_id)


text \<open>On a closure that counts its calls: a view, a second view and a copy of the
  first, called in turn, return 1, 2 and 3 and leave 3 in the closure.\<close>

lemma count_closure_views:
  "then_call (operator_call (function_view_callable u1 count_closure id 8) ())
     (then_call (operator_call (function_view_callable u2 count_closure id 8) ())
        (operator_call (function_view_copy (function_view_callable u1 count_closure id 8)) ()))
     (w(8 \<mapsto> Int_cell 0))
   = Some ((1, 2, 3), w(8 \<mapsto> Int_cell 3))"
  by (simp add: operator_call_function_view_callable function_view_copy_same then_call_def
      direct_call_def count_closure_def INT_MIN_def INT_MAX_def)

subsection \<open>The return type test\<close>

lemma traits_Or_three:
  "traits_Or [b1, b2, b3] =
     (case b1 of
        None \<Rightarrow> None
      | Some v1 \<Rightarrow>
          if v1 then Some True
          else (case b2 of None \<Rightarrow> None | Some v2 \<Rightarrow> if v2 then Some True else b3))"
  by (simp split: option.split)

text \<open>
  C3: when the three standard predicates have values, \<open>CompatibleReturnType\<close> is
  their disjunction: the declared result type is \<open>void\<close>, or the two types are the same,
  or the callable's result type converts to the declared one. The disjunction is
  evaluated from the left and stops at the first true one: when the declared result type
  is \<open>void\<close> the answer is true whatever the two later predicates are, even if they
  have no value. \<open>IsCompatibleCallable\<close> is that test on the result type of the call.
\<close>

theorem CompatibleReturnType_is_disjunction:
  "(is_void std To = Some v \<and> is_same std From To = Some s
      \<and> is_convertible std From To = Some c
      \<longrightarrow> CompatibleReturnType std From To = Some (v \<or> s \<or> c))
   \<and> (is_void std To' = Some True \<longrightarrow> CompatibleReturnType std From' To' = Some True)
   \<and> (result_of std Callable = Some Res'
      \<longrightarrow> IsCompatibleCallable std Res Callable = CompatibleReturnType std Res' Res)"
  by (auto simp add: CompatibleReturnType_def IsCompatibleCallable_def)

theorem CompatibleReturnType_is_disjunction_witness:
  "is_void example_traits Bool_t = Some False
   \<and> is_same example_traits Int_t Bool_t = Some False
   \<and> is_convertible example_traits Int_t Bool_t = Some True
   \<and> CompatibleReturnType example_traits Int_t Bool_t = Some True
   \<and> is_void example_traits Void_t = Some True
   \<and> CompatibleReturnType example_traits Pointer_t Void_t = Some True
   \<and> result_of example_traits (Returns Int_t) = Some Int_t
   \<and> IsCompatibleCallable example_traits Pointer_t (Returns Int_t) = Some False"
  using CompatibleReturnType_is_disjunction
    [where std = example_traits and From = Int_t and To = Bool_t
       and v = False and s = False and c = True and From' = Pointer_t and To' = Void_t
       and Callable = "Returns Int_t" and Res' = Int_t and Res = Pointer_t]
  by (simp add: example_traits_def CompatibleReturnType_def)

subsection \<open>The two members\<close>

text \<open>
  C4, as the code has it: \<open>bind\<close>, which the converting constructor runs, and copy
  assignment set the erased callable and the invoker together, whatever the view held
  before. Assigning \<open>nullptr\<close> resets the invoker only: the erased callable stays as it
  was.
\<close>

theorem mutations_of_a_view:
  "bind_callable call cast c this
     = \<lparr> m_erased_callable = data c, m_invoker = Some (invoker_callable call cast) \<rparr>
   \<and> bind_fn call cast f this
     = \<lparr> m_erased_callable = fn f, m_invoker = Some (invoker_fn call cast) \<rparr>
   \<and> operator_assign this other = other
   \<and> m_invoker (operator_assign_nullptr this) = None
   \<and> m_erased_callable (operator_assign_nullptr this) = m_erased_callable this"
  by (simp add: bind_callable_def bind_fn_def operator_assign_def operator_assign_nullptr_def)

text \<open>
  A view of the object at address 7 to which \<open>nullptr\<close> is assigned: its invoker is
  null and its erased callable is still the address 7, so it is not the view that the
  null constructor makes, and one member is of the old binding while the other is new.
\<close>

theorem nullptr_assignment_keeps_erased_callable:
  "m_erased_callable
     (operator_assign_nullptr
        (function_view_callable function_view_default greater_than_closure id 7))
     = data 7
   \<and> m_invoker
     (operator_assign_nullptr
        (function_view_callable function_view_default greater_than_closure id 7))
     = None
   \<and> operator_assign_nullptr
        (function_view_callable function_view_default greater_than_closure id 7)
     \<noteq> function_view_nullptr"
  by (simp add: operator_assign_nullptr_def function_view_callable_def bind_callable_def
      function_view_nullptr_def function_view_default_def)

text \<open>
  C5: a default-constructed view is empty, and so is a view constructed from
  \<open>nullptr\<close>; a view is empty after \<open>nullptr\<close> is assigned to it, whatever it was
  before; a view constructed from a function object or from a function is not empty.
\<close>

theorem emptiness_query:
  "\<not> operator_bool function_view_default
   \<and> \<not> operator_bool function_view_nullptr
   \<and> \<not> operator_bool (operator_assign_nullptr v)
   \<and> operator_bool (function_view_callable u call cast c)
   \<and> operator_bool (function_view_fn u' call' cast' f)"
  by (simp add: operator_bool_def function_view_default_def function_view_nullptr_def
      operator_assign_nullptr_def function_view_callable_def bind_callable_def
      function_view_fn_def bind_fn_def)

text \<open>
  C6: the four comparisons with the null marker agree with the truthiness query:
  \<open>f == nullptr\<close> and \<open>nullptr == f\<close> hold exactly when \<open>f\<close> is empty,
  \<open>f != nullptr\<close> and \<open>nullptr != f\<close> exactly when it is not, and each inequality
  is the negation of the equality on the same side.
\<close>

theorem nullptr_comparisons_agree_with_bool:
  "eq_view_nullptr f = (\<not> operator_bool f)
   \<and> eq_nullptr_view f = (\<not> operator_bool f)
   \<and> ne_view_nullptr f = operator_bool f
   \<and> ne_nullptr_view f = operator_bool f
   \<and> ne_view_nullptr f = (\<not> eq_view_nullptr f)
   \<and> ne_nullptr_view f = (\<not> eq_nullptr_view f)"
  by (simp add: eq_view_nullptr_def eq_nullptr_view_def ne_view_nullptr_def ne_nullptr_view_def)

text \<open>
  C9: whether a view is empty depends on its invoker alone. Assigning \<open>nullptr\<close>
  leaves the erased callable as it was and sets the invoker to null, and the view is
  empty afterwards; a view with a null invoker is empty whatever its erased callable is;
  and changing the erased callable of any view does not change the answer.
\<close>

theorem emptiness_is_the_invoker:
  "m_erased_callable (operator_assign_nullptr v) = m_erased_callable v
   \<and> m_invoker (operator_assign_nullptr v) = None
   \<and> \<not> operator_bool (operator_assign_nullptr v)
   \<and> \<not> operator_bool \<lparr> m_erased_callable = e, m_invoker = None \<rparr>
   \<and> operator_bool (v\<lparr> m_erased_callable := e \<rparr>) = operator_bool v"
  by (simp add: operator_bool_def operator_assign_nullptr_def)

subsection \<open>Two scenarios\<close>

text \<open>
  C7: a \<open>function_view<bool (int)>\<close> on a closure that holds the threshold 5 and
  computes \<open>x > t\<close> returns false for 3, true for 7 and false for 5, and leaves the
  memory as it was.
\<close>

theorem greater_than_5_scenario:
  "operator_call (function_view_callable uninit greater_than_closure id c) 3 (w(c \<mapsto> Int_cell 5))
     = Some (False, w(c \<mapsto> Int_cell 5))
   \<and> operator_call (function_view_callable uninit greater_than_closure id c) 7 (w(c \<mapsto> Int_cell 5))
     = Some (True, w(c \<mapsto> Int_cell 5))
   \<and> operator_call (function_view_callable uninit greater_than_closure id c) 5 (w(c \<mapsto> Int_cell 5))
     = Some (False, w(c \<mapsto> Int_cell 5))"
  by (simp add: operator_call_function_view_callable direct_call_def greater_than_closure_def)

text \<open>
  C8: a \<open>function_view<void ()>\<close> on a function object at \<open>p\<close> that increments a
  counter at another address \<open>c\<close>: three calls on a counter that holds 0 leave 3 in
  it, and one call on a counter that holds an \<open>n\<close> below \<open>INT_MAX\<close> leaves
  \<open>n + 1\<close>; nothing else in the memory changes.
\<close>

theorem counter_scenario:
  "p \<noteq> c \<Longrightarrow>
   then_call (operator_call (function_view_callable uninit increment_counter (\<lambda>r. ()) p) ())
     (then_call (operator_call (function_view_callable uninit increment_counter (\<lambda>r. ()) p) ())
        (operator_call (function_view_callable uninit increment_counter (\<lambda>r. ()) p) ()))
     (w(p \<mapsto> Ptr_cell c, c \<mapsto> Int_cell 0))
   = Some (((), (), ()), w(p \<mapsto> Ptr_cell c, c \<mapsto> Int_cell 3))
   \<and> (INT_MIN \<le> n \<and> n < INT_MAX \<longrightarrow>
      operator_call (function_view_callable uninit increment_counter (\<lambda>r. ()) p) ()
          (w(p \<mapsto> Ptr_cell c, c \<mapsto> Int_cell n))
        = Some ((), w(p \<mapsto> Ptr_cell c, c \<mapsto> Int_cell (n + 1))))"
  by (simp add: operator_call_function_view_callable then_call_def direct_call_def
      increment_counter_def INT_MIN_def INT_MAX_def)

theorem counter_scenario_witness:
  "(1::nat) \<noteq> 2
   \<and> then_call
       (operator_call (function_view_callable function_view_default increment_counter (\<lambda>r. ()) 1) ())
       (then_call
          (operator_call (function_view_callable function_view_default increment_counter (\<lambda>r. ()) 1) ())
          (operator_call (function_view_callable function_view_default increment_counter (\<lambda>r. ()) 1) ()))
       [1 \<mapsto> Ptr_cell 2, 2 \<mapsto> Int_cell 0]
     = Some (((), (), ()), [1 \<mapsto> Ptr_cell 2, 2 \<mapsto> Int_cell 3])
   \<and> INT_MIN \<le> 41 \<and> 41 < INT_MAX
   \<and> operator_call (function_view_callable function_view_default increment_counter (\<lambda>r. ()) 1) ()
       [1 \<mapsto> Ptr_cell 2, 2 \<mapsto> Int_cell 41]
     = Some ((), [1 \<mapsto> Ptr_cell 2, 2 \<mapsto> Int_cell 42])"
  using counter_scenario
    [where p = 1 and c = 2 and w = Map.empty and uninit = function_view_default and n = 41]
  by (simp add: INT_MIN_def INT_MAX_def)

text \<open>At \<open>INT_MAX\<close> the increment, and so the call through the view, is undefined.\<close>

lemma counter_at_INT_MAX:
  "p \<noteq> c \<Longrightarrow>
   operator_call (function_view_callable uninit increment_counter (\<lambda>r. ()) p) ()
     (w(p \<mapsto> Ptr_cell c, c \<mapsto> Int_cell INT_MAX)) = None"
  by (simp add: operator_call_function_view_callable direct_call_def increment_counter_def)

subsection \<open>A view that its callable can reach\<close>

lemma invoker_callable_data: "invoker_callable call cast (data c) = direct_call call cast c"
  by (intro ext) (simp add: invoker_callable_def direct_call_def)

lemma invoker_fn_fn: "invoker_fn call cast (fn f) = direct_call call cast f"
  by (intro ext) (simp add: invoker_fn_def direct_call_def)

text \<open>The view object that the converting constructor leaves in the memory reads back
  as the view it constructs.\<close>

lemma load_view_bound:
  "i \<noteq> 0 \<Longrightarrow> code i = invoker_callable call cast \<Longrightarrow>
   load_view code (w(v \<mapsto> View_cell (data c) i)) v = Some (function_view_callable uninit call cast c)"
  by (simp add: load_view_def function_view_callable_def bind_callable_def)

text \<open>What \<open>reset_view\<close> writes is what \<open>operator= (std::nullptr_t)\<close> does to the
  view object.\<close>

lemma load_view_reset:
  "w v = Some (View_cell ecall i) \<Longrightarrow>
   load_view code (w(v \<mapsto> View_cell ecall 0)) v
     = map_option operator_assign_nullptr (load_view code w v)"
  by (simp add: load_view_def operator_assign_nullptr_def)







end
